theory Spec2Isabelle
  imports Complex_Main "HOL-Library.Multiset" "HOL-Library.Product_Lexorder"
begin

section \<open>Python values\<close>

text \<open>
  Strings are lists of code points; the model covers the code points up to U+00FF, one
  \<open>char\<close> each. Python floats are modelled by their exact rational values and float
  arithmetic by exact arithmetic: rounding error of the float operations is outside the
  model. \<open>NaN\<close> (the mean of an empty column) is a value of its own.
\<close>

datatype exn =
    HTTPException nat string
  | ZeroDivisionError
  | KeyError string
  | AttributeError string
  | JSONDecodeError
  | OtherError string

datatype pyfloat = NaN | Fin rat

subsection \<open>Character classes of \<open>str.lower\<close>, \<open>str.split\<close> and the \<open>re\<close> module\<close>

definition py_isspace :: "char \<Rightarrow> bool" where
  \<comment> \<open>\<open>str.isspace\<close>, which is also \<open>\s\<close> of a str pattern\<close>
  "py_isspace c = (let n = (of_char c :: nat) in
     (9 \<le> n \<and> n \<le> 13) \<or> (28 \<le> n \<and> n \<le> 32) \<or> n = 133 \<or> n = 160)"

definition py_isalnum :: "char \<Rightarrow> bool" where
  \<comment> \<open>\<open>str.isalnum\<close>: letters, decimal digits and the numeric characters of Latin-1\<close>
  "py_isalnum c = (let n = (of_char c :: nat) in
     (48 \<le> n \<and> n \<le> 57) \<or> (65 \<le> n \<and> n \<le> 90) \<or> (97 \<le> n \<and> n \<le> 122) \<or>
     n = 170 \<or> n = 178 \<or> n = 179 \<or> n = 181 \<or> n = 185 \<or> n = 186 \<or>
     (188 \<le> n \<and> n \<le> 190) \<or> (192 \<le> n \<and> n \<le> 214) \<or>
     (216 \<le> n \<and> n \<le> 246) \<or> (248 \<le> n \<and> n \<le> 255))"

definition re_word :: "char \<Rightarrow> bool" where
  \<comment> \<open>\<open>\w\<close> of a str pattern: alphanumeric or the underscore\<close>
  "re_word c = (py_isalnum c \<or> c = CHR ''_'')"

definition py_lower_char :: "char \<Rightarrow> char" where
  "py_lower_char c = (let n = (of_char c :: nat) in
     if (65 \<le> n \<and> n \<le> 90) \<or> (192 \<le> n \<and> n \<le> 222 \<and> n \<noteq> 215)
     then char_of (n + 32) else c)"

definition lower :: "string \<Rightarrow> string" where
  "lower s = map py_lower_char s"

subsection \<open>The \<open>in\<close> operator on strings\<close>

fun startswith :: "string \<Rightarrow> string \<Rightarrow> bool" where
  "startswith text [] = True"
| "startswith [] (k # ks) = False"
| "startswith (c # cs) (k # ks) = (c = k \<and> startswith cs ks)"

fun str_contains :: "string \<Rightarrow> string \<Rightarrow> bool" where
  \<comment> \<open>\<open>str_contains text kw\<close> is \<open>kw in text\<close>\<close>
  "str_contains [] kw = (kw = [])"
| "str_contains (c # cs) kw = (startswith (c # cs) kw \<or> str_contains cs kw)"

subsection \<open>\<open>str.split()\<close> without arguments\<close>

fun split_from :: "string \<Rightarrow> string \<Rightarrow> string list" where
  \<comment> \<open>the first argument is the token being read, reversed\<close>
  "split_from cur [] = (if cur = [] then [] else [rev cur])"
| "split_from cur (c # cs) =
     (if py_isspace c
      then (if cur = [] then split_from [] cs else rev cur # split_from [] cs)
      else split_from (c # cur) cs)"

definition split :: "string \<Rightarrow> string list" where
  "split s = split_from [] s"

subsection \<open>\<open>round(x, 1)\<close>\<close>

definition round_half_even :: "rat \<Rightarrow> int" where
  \<comment> \<open>Python rounds the exact value of the float, a tie to the even neighbour\<close>
  "round_half_even y = (let f = \<lfloor>y\<rfloor>; d = y - of_int f in
     if d < 1 / 2 then f else if 1 / 2 < d then f + 1
     else if even f then f else f + 1)"

definition round1 :: "rat \<Rightarrow> rat" where
  "round1 x = of_int (round_half_even (x * 10)) / 10"

fun round1f :: "pyfloat \<Rightarrow> pyfloat" where
  "round1f NaN = NaN"
| "round1f (Fin x) = Fin (round1 x)"

section \<open>models.py\<close>

text \<open>
  A \<open>datetime.date\<close> has a year, a month and a day; a datetime is a date and the time
  of day in microseconds. Both are ordered lexicographically, as Python orders them.
\<close>

datatype date = Date (year: nat) (month: nat) (day: nat)

instantiation date :: linorder
begin

definition less_eq_date :: "date \<Rightarrow> date \<Rightarrow> bool" where
  "less_eq_date d e \<longleftrightarrow> (year d, month d, day d) \<le> (year e, month e, day e)"

definition less_date :: "date \<Rightarrow> date \<Rightarrow> bool" where
  "less_date d e \<longleftrightarrow> (year d, month d, day d) < (year e, month e, day e)"

instance
  by standard (auto simp: less_eq_date_def less_date_def date.expand)

end

type_synonym datetime = "date \<times> nat"

text \<open>
  \<open>InputDataPoint\<close>, with the fields the processor reads and \<open>post_id\<close>; its other
  eighteen fields are carried along and never read.
\<close>

record InputDataPoint =
  post_id :: string
  timestamp :: datetime
  caption_text :: string
  hashtags :: string
  sentiment_score :: rat
  likes_count :: int
  comments_count :: int
  shares_count :: int
  engagement_score :: rat
  time_spent_on_post :: int
  night_usage_minutes :: int
  wellbeing_index :: rat

section \<open>data_processor.py\<close>

subsection \<open>\<open>_extract_mental_health_indicators\<close>\<close>

definition keywords_anxiety :: "string list" where
  "keywords_anxiety =
     [''anxiety'', ''worried'', ''nervous'', ''panic'', ''stress'', ''overwhelmed'']"

definition keywords_depression :: "string list" where
  "keywords_depression =
     [''depressed'', ''sad'', ''down'', ''hopeless'', ''empty'', ''worthless'']"

definition keywords_stress :: "string list" where
  "keywords_stress =
     [''stressed'', ''pressure'', ''deadline'', ''overwhelmed'', ''burnout'', ''exhausted'']"

definition combined_text :: "InputDataPoint \<Rightarrow> string" where
  "combined_text row = lower (caption_text row) @ '' '' @ lower (hashtags row)"

definition any_keyword :: "string list \<Rightarrow> string \<Rightarrow> bool" where
  "any_keyword kws text = list_ex (\<lambda>keyword. str_contains text keyword) kws"

definition incr :: "string \<Rightarrow> (string \<times> nat) list \<Rightarrow> (string \<times> nat) list" where
  \<comment> \<open>\<open>categories[key] += 1\<close>\<close>
  "incr key categories = map (\<lambda>(k, v). if k = key then (k, v + 1) else (k, v)) categories"

definition count_row :: "InputDataPoint \<Rightarrow> (string \<times> nat) list \<Rightarrow> (string \<times> nat) list" where
  "count_row row categories =
     (let text = combined_text row;
          c1 = (if any_keyword keywords_anxiety text then incr ''Anxiety'' categories
                else categories);
          c2 = (if any_keyword keywords_stress text then incr ''Stress'' c1 else c1)
      in if any_keyword keywords_depression text then incr ''Depression'' c2 else c2)"

definition extract_mental_health_indicators ::
  "InputDataPoint list \<Rightarrow> exn + (string \<times> rat) list" where
  "extract_mental_health_indicators df =
     (let total_posts = length df;
          categories = fold count_row df [(''Anxiety'', 0), (''Stress'', 0), (''Depression'', 0)]
      in if total_posts = 0 then Inl ZeroDivisionError
         else Inr (map (\<lambda>(k, v). (k, of_nat v / of_nat total_posts * 100)) categories))"

subsection \<open>\<open>_calculate_daily_aggregates\<close>\<close>

text \<open>
  \<open>df.groupby('date').agg(...)\<close> keeps, for every date, the number of rows and the
  running sums of the eight columns; the groups come out in ascending order of the date,
  and a mean is the sum divided by the number of rows.
\<close>

record day_acc =
  nobs :: nat
  sum_sentiment :: rat
  sum_engagement :: rat
  sum_wellbeing :: rat
  sum_likes :: int
  sum_comments :: int
  sum_shares :: int
  sum_time_spent :: int
  sum_night_usage :: int

definition empty_acc :: day_acc where
  "empty_acc = \<lparr>nobs = 0, sum_sentiment = 0, sum_engagement = 0, sum_wellbeing = 0,
     sum_likes = 0, sum_comments = 0, sum_shares = 0, sum_time_spent = 0,
     sum_night_usage = 0\<rparr>"

definition acc_add :: "day_acc \<Rightarrow> InputDataPoint \<Rightarrow> day_acc" where
  "acc_add a row =
     \<lparr>nobs = nobs a + 1,
      sum_sentiment = sum_sentiment a + sentiment_score row,
      sum_engagement = sum_engagement a + engagement_score row,
      sum_wellbeing = sum_wellbeing a + wellbeing_index row,
      sum_likes = sum_likes a + likes_count row,
      sum_comments = sum_comments a + comments_count row,
      sum_shares = sum_shares a + shares_count row,
      sum_time_spent = sum_time_spent a + time_spent_on_post row,
      sum_night_usage = sum_night_usage a + night_usage_minutes row\<rparr>"

definition date_of :: "InputDataPoint \<Rightarrow> date" where
  \<comment> \<open>\<open>df['timestamp'].dt.date\<close>\<close>
  "date_of row = fst (timestamp row)"

fun add_row :: "InputDataPoint \<Rightarrow> (date \<times> day_acc) list \<Rightarrow> (date \<times> day_acc) list" where
  "add_row row [] = [(date_of row, acc_add empty_acc row)]"
| "add_row row ((k, a) # groups) =
     (if date_of row < k then (date_of row, acc_add empty_acc row) # (k, a) # groups
      else if date_of row = k then (k, acc_add a row) # groups
      else (k, a) # add_row row groups)"

record daily =
  date_agg :: date
  sentiment_score_agg :: rat
  engagement_score_agg :: rat
  wellbeing_index_agg :: rat
  likes_count_agg :: int
  comments_count_agg :: int
  shares_count_agg :: int
  time_spent_on_post_agg :: int
  night_usage_minutes_agg :: int

definition agg_record :: "date \<times> day_acc \<Rightarrow> daily" where
  "agg_record g = (case g of (k, a) \<Rightarrow>
     \<lparr>date_agg = k,
      sentiment_score_agg = sum_sentiment a / of_nat (nobs a),
      engagement_score_agg = sum_engagement a / of_nat (nobs a),
      wellbeing_index_agg = sum_wellbeing a / of_nat (nobs a),
      likes_count_agg = sum_likes a,
      comments_count_agg = sum_comments a,
      shares_count_agg = sum_shares a,
      time_spent_on_post_agg = sum_time_spent a,
      night_usage_minutes_agg = sum_night_usage a\<rparr>)"

definition calculate_daily_aggregates :: "InputDataPoint list \<Rightarrow> daily list" where
  "calculate_daily_aggregates df = map agg_record (fold add_row df [])"

subsection \<open>\<open>_analyze_engagement_patterns\<close>\<close>

record pattern =
  likes :: int
  comments :: int
  emotional_tone :: rat

definition analyze_engagement_patterns :: "InputDataPoint list \<Rightarrow> pattern list" where
  "analyze_engagement_patterns df =
     map (\<lambda>row. \<lparr>likes = likes_count row, comments = comments_count row,
                 emotional_tone = sentiment_score row\<rparr>) df"

subsection \<open>\<open>_analyze_topics\<close>\<close>

definition row_text :: "InputDataPoint \<Rightarrow> string" where
  "row_text row = caption_text row @ '' '' @ hashtags row"

definition clean_char :: "char \<Rightarrow> char" where
  \<comment> \<open>what \<open>re.sub(r'[^\w\s]', ' ', ...)\<close> does to one character\<close>
  "clean_char c = (if re_word c \<or> py_isspace c then c else CHR '' '')"

definition clean_text :: "string \<Rightarrow> string" where
  \<comment> \<open>\<open>re.sub(r'[^\w\s]', ' ', str(text).lower())\<close>\<close>
  "clean_text text = map clean_char (lower text)"

definition tokens_of_text :: "string \<Rightarrow> string list" where
  "tokens_of_text text = split (clean_text text)"

definition words_of :: "InputDataPoint list \<Rightarrow> string list" where
  "words_of df = concat (map tokens_of_text (map row_text df))"

definition stress_words :: "string list" where
  "stress_words =
     [''workload'', ''deadline'', ''sleep'', ''balance'', ''family'',
      ''exercise'', ''burnout'', ''pressure'', ''stress'', ''tired'',
      ''overwhelmed'', ''anxious'', ''worried'', ''exhausted'']"

definition Counter :: "string list \<Rightarrow> (string \<rightharpoonup> nat)" where
  "Counter words =
     fold (\<lambda>w m. m(w \<mapsto> (case m w of None \<Rightarrow> 1 | Some c \<Rightarrow> c + 1))) words Map.empty"

definition sorted_reverse :: "('a \<Rightarrow> 'k::linorder) \<Rightarrow> 'a list \<Rightarrow> 'a list" where
  \<comment> \<open>\<open>sorted(xs, key=key, reverse=True)\<close>: reverse, sort stably, reverse again\<close>
  "sorted_reverse key xs = rev (sort_key key (rev xs))"

definition analyze_topics :: "InputDataPoint list \<Rightarrow> (string \<times> nat) list" where
  "analyze_topics df =
     (let word_freq = Counter (words_of df);
          stress_word_freq =
            List.map_filter
              (\<lambda>word. case word_freq word of None \<Rightarrow> None | Some c \<Rightarrow> Some (word, c))
              stress_words
      in take 7 (sorted_reverse snd stress_word_freq))"

subsection \<open>\<open>_calculate_wellbeing_metrics\<close>\<close>

definition mean :: "rat list \<Rightarrow> pyfloat" where
  "mean xs = (if xs = [] then NaN else Fin (sum_list xs / of_nat (length xs)))"

fun ge :: "pyfloat \<Rightarrow> rat \<Rightarrow> bool" where
  "ge NaN t = False"
| "ge (Fin x) t = (t \<le> x)"

record WellbeingMetrics =
  wellbeing_score :: pyfloat
  sentiment_score_avg :: pyfloat
  engagement_score_avg :: pyfloat
  status :: string

definition calculate_wellbeing_metrics :: "InputDataPoint list \<Rightarrow> WellbeingMetrics" where
  "calculate_wellbeing_metrics df =
     (let avg_wellbeing = mean (map wellbeing_index df);
          avg_sentiment = mean (map sentiment_score df);
          avg_engagement = mean (map engagement_score df)
      in \<lparr>wellbeing_score = avg_wellbeing,
          sentiment_score_avg = avg_sentiment,
          engagement_score_avg = avg_engagement,
          status =
            (if ge avg_wellbeing 80 then ''Excellent''
             else if ge avg_wellbeing 60 then ''Good''
             else if ge avg_wellbeing 40 then ''Stable''
             else ''Needs Attention'')\<rparr>)"

subsection \<open>\<open>process_data\<close>\<close>

record processed =
  daily_data :: "daily list"
  mental_health_indicators :: "(string \<times> rat) list"
  engagement_patterns :: "pattern list"
  topic_analysis :: "(string \<times> nat) list"
  wellbeing_metrics :: WellbeingMetrics
  raw_data :: "InputDataPoint list"

text \<open>
  The data points are pydantic models, and \<open>dp.dict()\<close> gives their fields. An empty
  list gives a frame without columns, and \<open>df['timestamp']\<close> raises.
  \<open>sort_values\<close> is modelled by a stable sort; pandas leaves the order of rows with
  equal timestamps open, and no theorem below depends on it.
\<close>

definition process_data :: "InputDataPoint list \<Rightarrow> exn + processed" where
  "process_data data_points =
     (if data_points = [] then Inl (KeyError ''timestamp'')
      else
        let df = sort_key timestamp data_points
        in case extract_mental_health_indicators df of
             Inl e \<Rightarrow> Inl e
           | Inr indicators \<Rightarrow>
               Inr \<lparr>daily_data = calculate_daily_aggregates df,
                    mental_health_indicators = indicators,
                    engagement_patterns = analyze_engagement_patterns df,
                    topic_analysis = analyze_topics df,
                    wellbeing_metrics = calculate_wellbeing_metrics df,
                    raw_data = df\<rparr>)"

subsection \<open>\<open>prepare_chart_data\<close>\<close>

record ChartDataPoint =
  date_pt :: "string option"
  sentiment_score_pt :: "rat option"
  category_pt :: "string option"
  percentage_pt :: "rat option"
  likes_pt :: "int option"
  comments_pt :: "int option"
  emotional_tone_pt :: "rat option"
  word_pt :: "string option"
  frequency_pt :: "int option"
  id_pt :: "int option"
  text_pt :: "string option"

record ChartData =
  chart_type :: string
  title :: string
  data_cd :: "ChartDataPoint list"
  value_cd :: "pyfloat option"
  range_cd :: "(string \<times> rat) list option"
  status_cd :: "string option"

record AnalysisResponse =
  emotional_trend :: ChartData
  mental_health_categories :: ChartData
  engagement_vs_mood :: ChartData
  topics_discussed :: ChartData
  wellbeing_index_chart :: ChartData
  recommendations :: ChartData

definition no_point :: ChartDataPoint where
  \<comment> \<open>every field of \<open>ChartDataPoint\<close> defaults to \<open>None\<close>\<close>
  "no_point = \<lparr>date_pt = None, sentiment_score_pt = None, category_pt = None,
     percentage_pt = None, likes_pt = None, comments_pt = None, emotional_tone_pt = None,
     word_pt = None, frequency_pt = None, id_pt = None, text_pt = None\<rparr>"

definition chart :: "string \<Rightarrow> string \<Rightarrow> ChartDataPoint list \<Rightarrow> ChartData" where
  \<comment> \<open>\<open>ChartData(chart_type=..., title=..., data=...)\<close>, the optional fields left out\<close>
  "chart ty ti ds = \<lparr>chart_type = ty, title = ti, data_cd = ds, value_cd = None,
     range_cd = None, status_cd = None\<rparr>"

definition digit :: "nat \<Rightarrow> char" where
  "digit n = char_of (48 + n mod 10)"

definition str_date :: "date \<Rightarrow> string" where
  \<comment> \<open>\<open>str\<close> of a \<open>datetime.date\<close>: YYYY-MM-DD\<close>
  "str_date d = (case d of Date y m dd \<Rightarrow>
     [digit (y div 1000), digit (y div 100), digit (y div 10), digit y] @ ''-'' @
     [digit (m div 10), digit m] @ ''-'' @ [digit (dd div 10), digit dd])"

definition scatter_point :: "pattern \<Rightarrow> ChartDataPoint" where
  "scatter_point p = no_point\<lparr>likes_pt := Some (likes p), comments_pt := Some (comments p),
     emotional_tone_pt := Some (round1 (emotional_tone p))\<rparr>"

definition prepare_chart_data :: "processed \<Rightarrow> AnalysisResponse" where
  "prepare_chart_data processed_data =
     (let daily = daily_data processed_data;
          mental_health = mental_health_indicators processed_data;
          engagement = engagement_patterns processed_data;
          topics = topic_analysis processed_data;
          wellbeing = wellbeing_metrics processed_data;
          emotional_trend_data =
            map (\<lambda>day. no_point\<lparr>date_pt := Some (str_date (date_agg day)),
                   sentiment_score_pt := Some (round1 (sentiment_score_agg day))\<rparr>) daily;
          mental_health_data =
            map (\<lambda>(category, percentage). no_point\<lparr>category_pt := Some category,
                   percentage_pt := Some (round1 percentage)\<rparr>) mental_health;
          engagement_data = map scatter_point (take 5 engagement);
          topics_data =
            map (\<lambda>(w, freq). no_point\<lparr>word_pt := Some w,
                   frequency_pt := Some (int freq)\<rparr>) topics;
          wellbeing_data =
            \<lparr>chart_type = ''gauge'', title = ''Overall Wellbeing Score'', data_cd = [],
             value_cd = Some (round1f (wellbeing_score wellbeing)),
             range_cd = Some [(''min'', 0), (''max'', 100)],
             status_cd = Some (status wellbeing)\<rparr>;
          recommendations_data = chart ''text_cards'' ''Personalized Suggestions'' []
      in \<lparr>emotional_trend = chart ''line'' ''Daily Sentiment Over Time'' emotional_trend_data,
          mental_health_categories =
            chart ''pie'' ''Distribution of Anxiety/Stress/Depression Indicators''
              mental_health_data,
          engagement_vs_mood = chart ''scatter'' ''Engagement vs Mood'' engagement_data,
          topics_discussed = chart ''word_cloud'' ''Top Stress-Related Words'' topics_data,
          wellbeing_index_chart = wellbeing_data,
          recommendations = recommendations_data\<rparr>)"


section \<open>openai_service.py\<close>

datatype json =
    JNull
  | JBool bool
  | JNumber rat
  | JString string
  | JArray "json list"
  | JObject "(string \<times> json) list"

definition strip :: "string \<Rightarrow> string" where
  "strip s = rev (dropWhile py_isspace (rev (dropWhile py_isspace s)))"

definition get_fallback_recommendations :: "json list" where
  "get_fallback_recommendations =
     [JString ''Try a 10-minute mindfulness meditation before starting your day.'',
      JString ''Take a short walk after lunch to reduce mid-day stress.'',
      JString ''Limit late-night screen time to improve sleep quality.'',
      JString ''Reach out to a friend or colleague for social connection.'']"

text \<open>
  \<open>_generate_recommendations\<close>. The external generator and \<open>json.loads\<close> are
  parameters: \<open>create context\<close> is the outcome of
  \<open>self.client.chat.completions.create(...)\<close> for the prompt built from the context,
  either an exception or \<open>response.choices[0].message.content\<close>; \<open>loads\<close> either
  raises or gives the parsed value. The last argument counts the calls made to the
  generator, and the new count is returned with the list.
\<close>

definition generate_recommendations ::
  "(string \<Rightarrow> exn + string) \<Rightarrow> (string \<Rightarrow> exn + json) \<Rightarrow> string \<Rightarrow> nat \<Rightarrow> json list \<times> nat" where
  "generate_recommendations create loads context calls =
     (case create context of
        Inl e \<Rightarrow> (get_fallback_recommendations, calls + 1)
      | Inr content \<Rightarrow>
          (let recommendations_text = strip content
           in case loads recommendations_text of
                Inl e \<Rightarrow> (get_fallback_recommendations, calls + 1)
              | Inr (JArray recs) \<Rightarrow>
                  if 4 \<le> length recs
                  then (take 4 recs, calls + 1)
                  else (get_fallback_recommendations, calls + 1)
              | Inr other \<Rightarrow> (get_fallback_recommendations, calls + 1)))"

section \<open>main.py\<close>

record AnalysisRequest =
  data_points :: "InputDataPoint list"
  analysis_period_days :: "int option"

definition point :: "string \<Rightarrow> rat \<Rightarrow> ChartDataPoint" where
  "point d s = no_point\<lparr>date_pt := Some d, sentiment_score_pt := Some s\<rparr>"

definition slice :: "string \<Rightarrow> rat \<Rightarrow> ChartDataPoint" where
  "slice c p = no_point\<lparr>category_pt := Some c, percentage_pt := Some p\<rparr>"

definition dot :: "int \<Rightarrow> int \<Rightarrow> rat \<Rightarrow> ChartDataPoint" where
  "dot l c t = no_point\<lparr>likes_pt := Some l, comments_pt := Some c,
     emotional_tone_pt := Some t\<rparr>"

definition topic :: "string \<Rightarrow> int \<Rightarrow> ChartDataPoint" where
  "topic w f = no_point\<lparr>word_pt := Some w, frequency_pt := Some f\<rparr>"

definition card_pt :: "int \<Rightarrow> string \<Rightarrow> ChartDataPoint" where
  "card_pt i t = no_point\<lparr>id_pt := Some i, text_pt := Some t\<rparr>"

definition get_fallback_analysis :: AnalysisResponse where
  "get_fallback_analysis =
     \<lparr>emotional_trend = chart ''line'' ''Daily Sentiment Over Time''
        [point ''2025-01-15'' 65, point ''2025-01-16'' 72, point ''2025-01-17'' 58,
         point ''2025-01-18'' 81, point ''2025-01-19'' 69, point ''2025-01-20'' 75,
         point ''2025-01-21'' 83],
      mental_health_categories =
        chart ''pie'' ''Distribution of Anxiety/Stress/Depression Indicators''
          [slice ''Anxiety'' 35, slice ''Stress'' 45, slice ''Depression'' 20],
      engagement_vs_mood = chart ''scatter'' ''Engagement vs Mood''
        [dot 12 3 65, dot 25 7 72, dot 8 1 58, dot 35 9 81, dot 18 4 69],
      topics_discussed = chart ''word_cloud'' ''Top Stress-Related Words''
        [topic ''workload'' 42, topic ''deadline'' 37, topic ''sleep'' 30,
         topic ''balance'' 25, topic ''family'' 21, topic ''exercise'' 18,
         topic ''burnout'' 14],
      wellbeing_index_chart =
        \<lparr>chart_type = ''gauge'', title = ''Overall Wellbeing Score'', data_cd = [],
         value_cd = Some (Fin 76), range_cd = Some [(''min'', 0), (''max'', 100)],
         status_cd = Some ''Stable''\<rparr>,
      recommendations = chart ''text_cards'' ''Personalized Suggestions''
        [card_pt 1 ''Try a 10-minute mindfulness meditation before starting your day.'',
         card_pt 2 ''Take a short walk after lunch to reduce mid-day stress.'',
         card_pt 3 ''Limit late-night screen time to improve sleep quality.'',
         card_pt 4 ''Reach out to a friend or colleague for social connection.'']\<rparr>"

text \<open>
  The two handlers. \<open>service\<close> is \<open>openai_service.analyze_mental_health_data\<close>, which
  either raises or returns a response; \<open>Inl\<close> of a handler is the exception that leaves
  it. Nothing outside the inner \<open>try\<close> of the batch handler can raise, so its outer
  handler is never entered.
\<close>

definition analyze_mental_health_data ::
  "(InputDataPoint list \<Rightarrow> exn + AnalysisResponse) \<Rightarrow> AnalysisRequest \<Rightarrow> exn + AnalysisResponse" where
  "analyze_mental_health_data service request =
     (let body =
        (if data_points request = [] then Inl (HTTPException 400 ''No data points provided'')
         else if length (data_points request) < 5
         then Inl (HTTPException 400
                ''At least 5 data points required for meaningful analysis'')
         else service (data_points request))
      in case body of
           Inl (HTTPException code detail) \<Rightarrow> Inl (HTTPException code detail)
         | Inl e \<Rightarrow> Inr get_fallback_analysis
         | Inr analysis_result \<Rightarrow> Inr analysis_result)"

definition analyze_batch_data ::
  "(InputDataPoint list \<Rightarrow> exn + AnalysisResponse) \<Rightarrow> AnalysisRequest list \<Rightarrow> AnalysisResponse list" where
  "analyze_batch_data service requests =
     fold (\<lambda>request results.
            case service (data_points request) of
              Inr analysis_result \<Rightarrow> results @ [analysis_result]
            | Inl e \<Rightarrow> results @ [get_fallback_analysis])
       requests []"

subsection \<open>The service as the handlers call it\<close>

text \<open>
  Both handlers turn every data point of a request into a plain dict before they call
  the service, and the service hands that list to \<open>process_data\<close>, which calls
  \<open>.dict()\<close> on every element; a plain dict has no such method. \<open>process_data\<close>
  above is the function on pydantic models, as its signature has it; \<open>service_call\<close> is
  the service on what the handlers pass, \<open>rest\<close> being what it does after
  \<open>process_data\<close>.
\<close>

datatype data_point = Model InputDataPoint | PlainDict InputDataPoint

definition to_dict :: "data_point \<Rightarrow> data_point" where
  \<comment> \<open>\<open>dp.dict() if hasattr(dp, 'dict') else dp\<close>\<close>
  "to_dict dp = (case dp of Model row \<Rightarrow> PlainDict row | PlainDict row \<Rightarrow> PlainDict row)"

fun dict_method :: "data_point \<Rightarrow> exn + InputDataPoint" where
  \<comment> \<open>\<open>dp.dict()\<close>\<close>
  "dict_method (Model row) = Inr row"
| "dict_method (PlainDict row) = Inl (AttributeError ''dict'')"

fun frame_rows :: "data_point list \<Rightarrow> exn + InputDataPoint list" where
  \<comment> \<open>\<open>[dp.dict() for dp in data_points]\<close>\<close>
  "frame_rows [] = Inr []"
| "frame_rows (dp # dps) =
     (case dict_method dp of
        Inl e \<Rightarrow> Inl e
      | Inr row \<Rightarrow>
          (case frame_rows dps of Inl e \<Rightarrow> Inl e | Inr rows \<Rightarrow> Inr (row # rows)))"

definition process_data_points :: "data_point list \<Rightarrow> exn + processed" where
  "process_data_points dps =
     (case frame_rows dps of Inl e \<Rightarrow> Inl e | Inr rows \<Rightarrow> process_data rows)"

definition service_call ::
  "(processed \<Rightarrow> exn + AnalysisResponse) \<Rightarrow> InputDataPoint list \<Rightarrow> exn + AnalysisResponse" where
  "service_call rest rows =
     (case process_data_points (map (\<lambda>dp. to_dict (Model dp)) rows) of
        Inl e \<Rightarrow> Inl e
      | Inr processed_data \<Rightarrow> rest processed_data)"

section \<open>Notions of the specification\<close>







definition vocab_index :: "string \<Rightarrow> nat" where
  \<comment> \<open>the position of a word in the vocabulary list\<close>
  "vocab_index w = length (takeWhile (\<lambda>v. v \<noteq> w) stress_words)"

definition ranked_before :: "string \<times> nat \<Rightarrow> string \<times> nat \<Rightarrow> bool" where
  \<comment> \<open>higher frequency first, equal frequencies in vocabulary order\<close>
  "ranked_before p q \<longleftrightarrow>
     snd q < snd p \<or> (snd p = snd q \<and> vocab_index (fst p) < vocab_index (fst q))"




section \<open>Sample batches\<close>

definition sample_post ::
  "string \<Rightarrow> datetime \<Rightarrow> string \<Rightarrow> string \<Rightarrow> rat \<Rightarrow> int \<Rightarrow> int \<Rightarrow> rat \<Rightarrow> InputDataPoint" where
  "sample_post pid ts caption tags sentiment n_likes n_comments wellbeing =
     \<lparr>post_id = pid, timestamp = ts, caption_text = caption, hashtags = tags,
      sentiment_score = sentiment, likes_count = n_likes, comments_count = n_comments,
      shares_count = 1, engagement_score = 75, time_spent_on_post = 45,
      night_usage_minutes = 30, wellbeing_index = wellbeing\<rparr>"

definition mood_batch :: "InputDataPoint list" where
  "mood_batch =
     [sample_post ''p1'' (Date 2025 1 15, 100) ''Feeling OVERWHELMED'' ''#work'' 40 12 3 55,
      sample_post ''p2'' (Date 2025 1 15, 200) ''So sad today'' [] 30 5 1 45,
      sample_post ''p3'' (Date 2025 1 16, 100) ''Great day'' ''#Sunshine'' 90 25 7 85,
      sample_post ''p4'' (Date 2025 1 17, 100) ''Total meltdown'' [] 35 8 1 50,
      sample_post ''p5'' (Date 2025 1 17, 300) ''ok'' ''#PANIC'' 50 18 4 60]"

definition level_batch :: "rat \<Rightarrow> InputDataPoint list" where
  "level_batch w =
     [sample_post ''p1'' (Date 2025 1 15, 0) ''fine'' [] 50 1 0 w,
      sample_post ''p2'' (Date 2025 1 16, 0) ''fine'' [] 50 1 0 w,
      sample_post ''p3'' (Date 2025 1 17, 0) ''fine'' [] 50 1 0 w,
      sample_post ''p4'' (Date 2025 1 18, 0) ''fine'' [] 50 1 0 w,
      sample_post ''p5'' (Date 2025 1 19, 0) ''fine'' [] 50 1 0 w]"

definition mock_loads :: "string \<Rightarrow> exn + json" where
  "mock_loads s =
     (if s = ''[1, 2, 3]'' then Inr (JArray [JNumber 1, JNumber 2, JNumber 3])
      else if s = ''[1, 2, 3, 4, 5]''
      then Inr (JArray [JNumber 1, JNumber 2, JNumber 3, JNumber 4, JNumber 5])
      else if s = ''7'' then Inr (JNumber 7)
      else Inl JSONDecodeError)"

definition pipeline_service :: "InputDataPoint list \<Rightarrow> exn + AnalysisResponse" where
  "pipeline_service rows =
     (case process_data rows of
        Inl e \<Rightarrow> Inl e
      | Inr processed_data \<Rightarrow> Inr (prepare_chart_data processed_data))"

definition request_of :: "InputDataPoint list \<Rightarrow> AnalysisRequest" where
  "request_of rows = \<lparr>data_points = rows, analysis_period_days = Some 7\<rparr>"

definition failing_service :: "InputDataPoint list \<Rightarrow> exn + AnalysisResponse" where
  "failing_service rows = Inl (AttributeError ''dict'')"


definition topic_batch :: "InputDataPoint list" where
  "topic_batch =
     [sample_post ''p1'' (Date 2025 1 15, 100) ''Deadline stress, no sleep'' ''#burnout #stress'' 40 12 3 55,
      sample_post ''p2'' (Date 2025 1 15, 200) ''Family and exercise keep the balance'' ''#family'' 80 5 1 75,
      sample_post ''p3'' (Date 2025 1 16, 100) ''Tired and worried about workload, pressure'' ''#stress #tired'' 30 25 7 45,
      sample_post ''p4'' (Date 2025 1 17, 100) ''overwhelmed... exhausted'' ''#sleep'' 35 8 1 50,
      sample_post ''p5'' (Date 2025 1 17, 300) ''anxious'' [] 50 18 4 60]"


section \<open>Evaluation of characters\<close>

lemmas char_eval =
  py_isspace_def py_isalnum_def re_word_def py_lower_char_def lower_def
  char_of_def bit_iff_odd_drop_bit

section \<open>Substring search\<close>




section \<open>Indicator percentages\<close>





section \<open>Wellbeing metrics\<close>





section \<open>Recommendations\<close>

lemma fallback_recommendations_length: "length get_fallback_recommendations = 4"
  by (simp add: get_fallback_recommendations_def)

text \<open>
  C3. In the recommendation flow the external generator is called exactly once. When
  its reply parses as a list of at least 4 items, the first 4 items are returned. When
  the call raises, the reply is not valid JSON, the parsed value is not a list, or the
  list has fewer than 4 items, the fixed 4-item fallback list is returned in its fixed
  order; a 3-item reply gives the fallback, not a padded list.
\<close>

theorem recommendation_flow:
  "snd (generate_recommendations create loads context calls) = calls + 1 \<and>
   length (fst (generate_recommendations create loads context calls)) = 4 \<and>
   (\<forall>e. create context = Inl e \<longrightarrow>
      fst (generate_recommendations create loads context calls) =
        get_fallback_recommendations) \<and>
   (\<forall>content e. create context = Inr content \<and> loads (strip content) = Inl e \<longrightarrow>
      fst (generate_recommendations create loads context calls) =
        get_fallback_recommendations) \<and>
   (\<forall>content v. create context = Inr content \<and> loads (strip content) = Inr v \<and>
        (\<forall>recs. v \<noteq> JArray recs) \<longrightarrow>
      fst (generate_recommendations create loads context calls) =
        get_fallback_recommendations) \<and>
   (\<forall>content recs. create context = Inr content \<and>
        loads (strip content) = Inr (JArray recs) \<and> length recs < 4 \<longrightarrow>
      fst (generate_recommendations create loads context calls) =
        get_fallback_recommendations) \<and>
   (\<forall>content recs. create context = Inr content \<and>
        loads (strip content) = Inr (JArray recs) \<and> 4 \<le> length recs \<longrightarrow>
      fst (generate_recommendations create loads context calls) = take 4 recs) \<and>
   get_fallback_recommendations =
     [JString ''Try a 10-minute mindfulness meditation before starting your day.'',
      JString ''Take a short walk after lunch to reduce mid-day stress.'',
      JString ''Limit late-night screen time to improve sleep quality.'',
      JString ''Reach out to a friend or colleague for social connection.'']"
proof -
  let ?g = "generate_recommendations create loads context calls"
  have calls: "snd ?g = calls + 1"
    by (simp add: generate_recommendations_def Let_def split: sum.splits json.splits)
  have len: "length (fst ?g) = 4"
    by (simp add: generate_recommendations_def Let_def fallback_recommendations_length
        split: sum.splits json.splits)
  have raise: "\<forall>e. create context = Inl e \<longrightarrow> fst ?g = get_fallback_recommendations"
    by (simp add: generate_recommendations_def)
  have bad: "\<forall>content e. create context = Inr content \<and> loads (strip content) = Inl e \<longrightarrow>
      fst ?g = get_fallback_recommendations"
    by (simp add: generate_recommendations_def Let_def)
  have other: "\<forall>content v. create context = Inr content \<and> loads (strip content) = Inr v \<and>
        (\<forall>recs. v \<noteq> JArray recs) \<longrightarrow> fst ?g = get_fallback_recommendations"
    by (auto simp: generate_recommendations_def Let_def split: json.splits)
  have short: "\<forall>content recs. create context = Inr content \<and>
        loads (strip content) = Inr (JArray recs) \<and> length recs < 4 \<longrightarrow>
      fst ?g = get_fallback_recommendations"
    by (simp add: generate_recommendations_def Let_def)
  have long: "\<forall>content recs. create context = Inr content \<and>
        loads (strip content) = Inr (JArray recs) \<and> 4 \<le> length recs \<longrightarrow>
      fst ?g = take 4 recs"
    by (simp add: generate_recommendations_def Let_def)
  show ?thesis
    using calls len raise bad other short long
    by (simp only: get_fallback_recommendations_def simp_thms)
qed

lemma strip_three: "strip ''  [1, 2, 3] '' = ''[1, 2, 3]''"
  by (simp add: strip_def char_eval)

theorem recommendation_flow_witness:
  "generate_recommendations (\<lambda>c. Inr ''  [1, 2, 3] '') mock_loads ''context'' 0 =
     (get_fallback_recommendations, 1) \<and>
   generate_recommendations (\<lambda>c. Inr ''[1, 2, 3, 4, 5]'') mock_loads ''context'' 0 =
     ([JNumber 1, JNumber 2, JNumber 3, JNumber 4], 1) \<and>
   generate_recommendations (\<lambda>c. Inl (OtherError ''timeout'')) mock_loads ''context'' 0 =
     (get_fallback_recommendations, 1) \<and>
   generate_recommendations (\<lambda>c. Inr ''not json'') mock_loads ''context'' 0 =
     (get_fallback_recommendations, 1) \<and>
   generate_recommendations (\<lambda>c. Inr ''7'') mock_loads ''context'' 0 =
     (get_fallback_recommendations, 1)"
proof -
  have three: "mock_loads (strip ''  [1, 2, 3] '') =
      Inr (JArray [JNumber 1, JNumber 2, JNumber 3])"
    by (simp add: strip_three mock_loads_def)
  have five: "mock_loads (strip ''[1, 2, 3, 4, 5]'') =
      Inr (JArray [JNumber 1, JNumber 2, JNumber 3, JNumber 4, JNumber 5])"
    by (simp add: strip_def mock_loads_def char_eval)
  have nojson: "mock_loads (strip ''not json'') = Inl JSONDecodeError"
    by (simp add: strip_def mock_loads_def char_eval)
  have seven: "mock_loads (strip ''7'') = Inr (JNumber 7)"
    by (simp add: strip_def mock_loads_def char_eval)
  have a: "fst (generate_recommendations (\<lambda>c. Inr ''  [1, 2, 3] '') mock_loads ''context'' 0) =
      get_fallback_recommendations"
    using recommendation_flow [of "\<lambda>c. Inr ''  [1, 2, 3] ''" mock_loads "''context''" 0] three
    by simp
  have b: "fst (generate_recommendations (\<lambda>c. Inr ''[1, 2, 3, 4, 5]'') mock_loads ''context'' 0) =
      [JNumber 1, JNumber 2, JNumber 3, JNumber 4]"
    using recommendation_flow [of "\<lambda>c. Inr ''[1, 2, 3, 4, 5]''" mock_loads "''context''" 0] five
    by simp
  have c: "fst (generate_recommendations (\<lambda>c. Inl (OtherError ''timeout'')) mock_loads ''context'' 0) =
      get_fallback_recommendations"
    using recommendation_flow [of "\<lambda>c. Inl (OtherError ''timeout'')" mock_loads "''context''" 0]
    by simp
  have d: "fst (generate_recommendations (\<lambda>c. Inr ''not json'') mock_loads ''context'' 0) =
      get_fallback_recommendations"
    using recommendation_flow [of "\<lambda>c. Inr ''not json''" mock_loads "''context''" 0] nojson
    by simp
  have e: "fst (generate_recommendations (\<lambda>c. Inr ''7'') mock_loads ''context'' 0) =
      get_fallback_recommendations"
    using recommendation_flow [of "\<lambda>c. Inr ''7''" mock_loads "''context''" 0] seven
    by simp
  have n: "snd (generate_recommendations create mock_loads ''context'' 0) = 1" for create
    using recommendation_flow [of create mock_loads "''context''" 0] by simp
  show ?thesis
    by (simp only: prod_eq_iff fst_conv snd_conv a b c d e n simp_thms)
qed

section \<open>Analyze handler\<close>

text \<open>
  C8. At the analyze handler an empty batch and a batch of fewer than 5 records are
  rejected with an HTTP 400 error that reaches the caller; any other exception raised
  while the batch is processed is caught, and the caller gets the canonical fallback
  response instead of an error.
\<close>

theorem analyze_boundary:
  "(data_points request = [] \<longrightarrow>
      analyze_mental_health_data service request =
        Inl (HTTPException 400 ''No data points provided'')) \<and>
   (data_points request \<noteq> [] \<and> length (data_points request) < 5 \<longrightarrow>
      analyze_mental_health_data service request =
        Inl (HTTPException 400 ''At least 5 data points required for meaningful analysis'')) \<and>
   (5 \<le> length (data_points request) \<longrightarrow>
      (\<forall>e. service (data_points request) = Inl e \<and> (\<forall>code detail. e \<noteq> HTTPException code detail) \<longrightarrow>
         analyze_mental_health_data service request = Inr get_fallback_analysis) \<and>
      (\<forall>code detail. service (data_points request) = Inl (HTTPException code detail) \<longrightarrow>
         analyze_mental_health_data service request = Inl (HTTPException code detail)) \<and>
      (\<forall>r. service (data_points request) = Inr r \<longrightarrow>
         analyze_mental_health_data service request = Inr r))"
proof -
  have empty: "data_points request = [] \<longrightarrow>
      analyze_mental_health_data service request =
        Inl (HTTPException 400 ''No data points provided'')"
    by (simp add: analyze_mental_health_data_def)
  have small: "data_points request \<noteq> [] \<and> length (data_points request) < 5 \<longrightarrow>
      analyze_mental_health_data service request =
        Inl (HTTPException 400 ''At least 5 data points required for meaningful analysis'')"
    by (simp add: analyze_mental_health_data_def)
  have big: "analyze_mental_health_data service request =
      (case service (data_points request) of
         Inl (HTTPException code detail) \<Rightarrow> Inl (HTTPException code detail)
       | Inl e \<Rightarrow> Inr get_fallback_analysis
       | Inr r \<Rightarrow> Inr r)"
    if "5 \<le> length (data_points request)"
  proof -
    from that have "data_points request \<noteq> []" "\<not> length (data_points request) < 5" by auto
    then show ?thesis by (simp add: analyze_mental_health_data_def)
  qed
  have caught: "5 \<le> length (data_points request) \<longrightarrow>
      (\<forall>e. service (data_points request) = Inl e \<and> (\<forall>code detail. e \<noteq> HTTPException code detail) \<longrightarrow>
         analyze_mental_health_data service request = Inr get_fallback_analysis)"
    by (auto simp: big split: exn.splits)
  have passed: "5 \<le> length (data_points request) \<longrightarrow>
      (\<forall>code detail. service (data_points request) = Inl (HTTPException code detail) \<longrightarrow>
         analyze_mental_health_data service request = Inl (HTTPException code detail)) \<and>
      (\<forall>r. service (data_points request) = Inr r \<longrightarrow>
         analyze_mental_health_data service request = Inr r)"
    by (simp add: big)
  from empty small caught passed show ?thesis by blast
qed

theorem analyze_boundary_witness:
  "analyze_mental_health_data failing_service (request_of []) =
     Inl (HTTPException 400 ''No data points provided'') \<and>
   analyze_mental_health_data failing_service (request_of (take 4 mood_batch)) =
     Inl (HTTPException 400 ''At least 5 data points required for meaningful analysis'') \<and>
   analyze_mental_health_data failing_service (request_of mood_batch) =
     Inr get_fallback_analysis \<and>
   analyze_mental_health_data (\<lambda>rows. Inr get_fallback_analysis) (request_of mood_batch) =
     Inr get_fallback_analysis"
proof -
  have l0: "data_points (request_of []) = []" by (simp add: request_of_def)
  have l4: "data_points (request_of (take 4 mood_batch)) \<noteq> [] \<and>
      length (data_points (request_of (take 4 mood_batch))) < 5"
    by (simp add: request_of_def mood_batch_def)
  have l5: "5 \<le> length (data_points (request_of mood_batch))"
    by (simp add: request_of_def mood_batch_def)
  have f: "failing_service (data_points (request_of mood_batch)) = Inl (AttributeError ''dict'') \<and>
      (\<forall>code detail. AttributeError ''dict'' \<noteq> HTTPException code detail)"
    by (simp add: failing_service_def)
  have a: "analyze_mental_health_data failing_service (request_of []) =
     Inl (HTTPException 400 ''No data points provided'')"
    using analyze_boundary [of "request_of []" failing_service] l0 by blast
  have b: "analyze_mental_health_data failing_service (request_of (take 4 mood_batch)) =
     Inl (HTTPException 400 ''At least 5 data points required for meaningful analysis'')"
    using analyze_boundary [of "request_of (take 4 mood_batch)" failing_service] l4 by blast
  have c: "analyze_mental_health_data failing_service (request_of mood_batch) =
     Inr get_fallback_analysis"
    using analyze_boundary [of "request_of mood_batch" failing_service] l5 f by blast
  have d: "analyze_mental_health_data (\<lambda>rows. Inr get_fallback_analysis) (request_of mood_batch) =
     Inr get_fallback_analysis"
    using analyze_boundary [of "request_of mood_batch" "\<lambda>rows. Inr get_fallback_analysis"] l5
    by blast
  from a b c d show ?thesis by blast
qed

section \<open>Batch handler\<close>

lemma fold_results:
  "fold (\<lambda>request results.
            case service (data_points request) of
              Inr analysis_result \<Rightarrow> results @ [analysis_result]
            | Inl e \<Rightarrow> results @ [get_fallback_analysis])
       requests acc =
   acc @ map (\<lambda>request. case service (data_points request) of
                Inr analysis_result \<Rightarrow> analysis_result
              | Inl e \<Rightarrow> get_fallback_analysis) requests"
  by (induction requests arbitrary: acc) (auto split: sum.splits)

lemma sort_key_nonempty: "rows \<noteq> [] \<Longrightarrow> sort_key f rows \<noteq> []"
  by (metis set_sort set_empty)

lemma process_data_nonempty: "rows \<noteq> [] \<Longrightarrow> \<exists>p. process_data rows = Inr p"
  by (simp add: process_data_def extract_mental_health_indicators_def Let_def
      sort_key_nonempty)

lemma recommendations_prepare:
  "data_cd (recommendations (prepare_chart_data p)) = []"
  by (simp add: prepare_chart_data_def Let_def chart_def)

lemma pipeline_not_fallback:
  "rows \<noteq> [] \<Longrightarrow> \<exists>r. pipeline_service rows = Inr r \<and> r \<noteq> get_fallback_analysis"
proof -
  assume "rows \<noteq> []"
  then obtain p where p: "process_data rows = Inr p" using process_data_nonempty by blast
  have "data_cd (recommendations get_fallback_analysis) \<noteq> []"
    by (simp add: get_fallback_analysis_def chart_def)
  then have "prepare_chart_data p \<noteq> get_fallback_analysis"
    using recommendations_prepare [of p] by metis
  then show ?thesis by (simp add: pipeline_service_def p)
qed

text \<open>
  C9. Batch analysis of n datasets returns exactly n results: the result for dataset i is
  what the service computed for it, or the canonical fallback response when the service
  raised on dataset i; a failure touches no other dataset. With three datasets of which
  the second raises, three results come back and only the second is the fallback.
\<close>

theorem batch_isolation:
  "length (analyze_batch_data service requests) = length requests \<and>
   (\<forall>i < length requests.
      analyze_batch_data service requests ! i =
        (case service (data_points (requests ! i)) of
           Inr analysis_result \<Rightarrow> analysis_result
         | Inl e \<Rightarrow> get_fallback_analysis))"
  by (simp add: analyze_batch_data_def fold_results)

theorem batch_isolation_witness:
  "length (analyze_batch_data pipeline_service
      [request_of mood_batch, request_of [], request_of (level_batch 80)]) = 3 \<and>
   analyze_batch_data pipeline_service
      [request_of mood_batch, request_of [], request_of (level_batch 80)] ! 1 =
     get_fallback_analysis \<and>
   analyze_batch_data pipeline_service
      [request_of mood_batch, request_of [], request_of (level_batch 80)] ! 0 \<noteq>
     get_fallback_analysis \<and>
   analyze_batch_data pipeline_service
      [request_of mood_batch, request_of [], request_of (level_batch 80)] ! 2 \<noteq>
     get_fallback_analysis \<and>
   Inr (analyze_batch_data pipeline_service
      [request_of mood_batch, request_of [], request_of (level_batch 80)] ! 0) =
     pipeline_service mood_batch \<and>
   Inr (analyze_batch_data pipeline_service
      [request_of mood_batch, request_of [], request_of (level_batch 80)] ! 2) =
     pipeline_service (level_batch 80)"
proof -
  let ?reqs = "[request_of mood_batch, request_of [], request_of (level_batch 80)]"
  note th = batch_isolation [of pipeline_service ?reqs]
  have len: "length (analyze_batch_data pipeline_service ?reqs) = 3"
    using th by simp
  have at: "analyze_batch_data pipeline_service ?reqs ! i =
        (case pipeline_service (data_points (?reqs ! i)) of
           Inr analysis_result \<Rightarrow> analysis_result
         | Inl e \<Rightarrow> get_fallback_analysis)" if "i < 3" for i
    using th that by simp
  have e: "pipeline_service [] = Inl (KeyError ''timestamp'')"
    by (simp add: pipeline_service_def process_data_def)
  obtain r0 where r0: "pipeline_service mood_batch = Inr r0" "r0 \<noteq> get_fallback_analysis"
    using pipeline_not_fallback [of mood_batch] by (auto simp: mood_batch_def)
  obtain r2 where r2: "pipeline_service (level_batch 80) = Inr r2" "r2 \<noteq> get_fallback_analysis"
    using pipeline_not_fallback [of "level_batch 80"] by (auto simp: level_batch_def)
  have a0: "analyze_batch_data pipeline_service ?reqs ! 0 = r0"
    using at [of 0] by (simp add: request_of_def r0)
  have a1: "analyze_batch_data pipeline_service ?reqs ! 1 = get_fallback_analysis"
    using at [of 1] by (simp add: request_of_def e)
  have a2: "analyze_batch_data pipeline_service ?reqs ! 2 = r2"
    using at [of 2] by (simp add: request_of_def r2)
  show ?thesis
    by (simp only: len a0 a1 a2 r0 r2 simp_thms)
qed

section \<open>Tokens\<close>




lemma underscore_word: "re_word CHR ''_''"
  by (simp add: re_word_def)




















section \<open>Topic frequencies\<close>

lemma fold_bump:
  "fold (\<lambda>w m. m(w \<mapsto> (case m w of None \<Rightarrow> 1 | Some c \<Rightarrow> c + 1))) ws m w =
     (if w \<in> set ws then Some ((case m w of None \<Rightarrow> 0 | Some c \<Rightarrow> c) + count_list ws w)
      else m w)"
  by (induction ws arbitrary: m) (auto split: option.splits)

lemma Counter_lookup:
  "Counter ws w = (if w \<in> set ws then Some (count_list ws w) else None)"
  by (simp add: Counter_def fold_bump)

lemma stress_word_freq:
  "List.map_filter (\<lambda>word. case Counter ws word of None \<Rightarrow> None | Some c \<Rightarrow> Some (word, c)) vs =
     map (\<lambda>w. (w, count_list ws w)) (filter (\<lambda>w. w \<in> set ws) vs)"
  by (induction vs) (simp_all add: map_filter_simps Counter_lookup)

lemma insort_ranked:
  "sorted_wrt (\<lambda>p q. f p < f q \<or> (f p = f q \<and> P p q)) ys \<Longrightarrow> \<forall>y \<in> set ys. P x y \<Longrightarrow>
   sorted_wrt (\<lambda>p q. f p < f q \<or> (f p = f q \<and> P p q)) (insort_key f x ys)"
  by (induction ys) (auto simp: set_insort_key)

lemma sort_key_ranked:
  "sorted_wrt P xs \<Longrightarrow> sorted_wrt (\<lambda>p q. f p < f q \<or> (f p = f q \<and> P p q)) (sort_key f xs)"
  by (induction xs) (auto intro: insort_ranked)

lemma sorted_reverse_ranked:
  "sorted_wrt P xs \<Longrightarrow>
   sorted_wrt (\<lambda>p q. f q < f p \<or> (f p = f q \<and> P p q)) (sorted_reverse f xs)"
proof -
  assume "sorted_wrt P xs"
  then have "sorted_wrt (\<lambda>p q. P q p) (rev xs)" by (simp add: sorted_wrt_rev)
  then have "sorted_wrt (\<lambda>p q. f p < f q \<or> (f p = f q \<and> P q p)) (sort_key f (rev xs))"
    by (rule sort_key_ranked)
  then have "sorted_wrt (\<lambda>q p. f p < f q \<or> (f p = f q \<and> P q p)) (sorted_reverse f xs)"
    by (simp add: sorted_reverse_def sorted_wrt_rev)
  then show ?thesis
    by (rule sorted_wrt_mono_rel [rotated]) auto
qed

lemma set_sorted_reverse: "set (sorted_reverse f xs) = set xs"
  by (simp add: sorted_reverse_def)

lemma length_sorted_reverse: "length (sorted_reverse f xs) = length xs"
  by (simp add: sorted_reverse_def)

lemma vocabulary: "length stress_words = 14 \<and> distinct stress_words"
  by (simp add: stress_words_def)

lemma vocabulary_order: "sorted_wrt (\<lambda>a b. vocab_index a < vocab_index b) stress_words"
  by (simp add: stress_words_def vocab_index_def)


lemma analyze_topics_eq:
  "analyze_topics rows =
     take 7 (sorted_reverse snd
       (map (\<lambda>w. (w, count_list (words_of rows) w))
          (filter (\<lambda>w. w \<in> set (words_of rows)) stress_words)))"
  by (simp add: analyze_topics_def Let_def stress_word_freq)

lemma items_order:
  "sorted_wrt (\<lambda>p q. vocab_index (fst p) < vocab_index (fst q))
     (map (\<lambda>w. (w, count_list ws w)) (filter (\<lambda>w. w \<in> set ws) stress_words))"
  using sorted_wrt_filter [OF vocabulary_order] by (simp add: sorted_wrt_map)

lemma full_ranking:
  "sorted_wrt ranked_before
     (sorted_reverse snd
       (map (\<lambda>w. (w, count_list ws w)) (filter (\<lambda>w. w \<in> set ws) stress_words)))"
  using sorted_reverse_ranked [OF items_order, of snd ws]
  by (simp add: ranked_before_def [abs_def])

lemma full_set:
  "set (sorted_reverse snd
       (map (\<lambda>w. (w, count_list ws w)) (filter (\<lambda>w. w \<in> set ws) stress_words))) =
   {(w, count_list ws w) | w. w \<in> set stress_words \<and> w \<in> set ws}"
  by (auto simp: set_sorted_reverse)

lemma count_list_pos: "w \<in> set ws \<Longrightarrow> 0 < count_list ws w"
  using count_list_0_iff [of ws w] by (cases "count_list ws w") auto

text \<open>
  C4. The topic analysis returns at most 7 pairs of a word and its frequency. Every word
  returned belongs to the fixed vocabulary of 14 stress words, and its frequency is the
  number of its occurrences among the tokens of the batch, at least 1. The pairs are in
  descending order of frequency, and words of equal frequency are in the order of the
  vocabulary list. The pairs are the first 7 of the ranking of all vocabulary words that
  occur; when fewer than 7 occur, that many pairs are returned and nothing is added.
\<close>

theorem topic_frequencies:
  "length (analyze_topics rows) \<le> 7 \<and>
   (\<forall>(w, f) \<in> set (analyze_topics rows).
      w \<in> set stress_words \<and> 1 \<le> f \<and> f = count_list (words_of rows) w) \<and>
   sorted_wrt ranked_before (analyze_topics rows) \<and>
   length (analyze_topics rows) =
     min 7 (length (filter (\<lambda>w. w \<in> set (words_of rows)) stress_words)) \<and>
   (\<exists>full. analyze_topics rows = take 7 full \<and> sorted_wrt ranked_before full \<and>
      set full = {(w, count_list (words_of rows) w) | w.
                    w \<in> set stress_words \<and> w \<in> set (words_of rows)}) \<and>
   length stress_words = 14 \<and> distinct stress_words"
proof -
  let ?ws = "words_of rows"
  let ?full = "sorted_reverse snd
       (map (\<lambda>w. (w, count_list ?ws w)) (filter (\<lambda>w. w \<in> set ?ws) stress_words))"
  have eq: "analyze_topics rows = take 7 ?full" by (rule analyze_topics_eq)
  have len: "length (analyze_topics rows) \<le> 7" by (simp add: eq)
  have mem: "\<forall>(w, f) \<in> set (analyze_topics rows).
      w \<in> set stress_words \<and> 1 \<le> f \<and> f = count_list ?ws w"
  proof (clarify)
    fix w f assume "(w, f) \<in> set (analyze_topics rows)"
    then have "(w, f) \<in> set ?full"
      unfolding eq by (rule in_set_takeD)
    then have "w \<in> set stress_words" "w \<in> set ?ws" "f = count_list ?ws w"
      by (auto simp: full_set)
    then show "w \<in> set stress_words \<and> 1 \<le> f \<and> f = count_list ?ws w"
      using count_list_pos [of w ?ws] by simp
  qed
  have srt: "sorted_wrt ranked_before (analyze_topics rows)"
    unfolding eq using full_ranking by (rule sorted_wrt_take)
  have cnt: "length (analyze_topics rows) =
     min 7 (length (filter (\<lambda>w. w \<in> set ?ws) stress_words))"
    by (simp add: eq length_sorted_reverse min.commute)
  have ex: "\<exists>full. analyze_topics rows = take 7 full \<and> sorted_wrt ranked_before full \<and>
      set full = {(w, count_list ?ws w) | w. w \<in> set stress_words \<and> w \<in> set ?ws}"
    using eq full_ranking full_set by blast
  from vocabulary have v1: "length stress_words = 14" and v2: "distinct stress_words"
    by simp_all
  show ?thesis by (intro conjI; fact)
qed

lemma topic_batch_words: "words_of topic_batch =
   [''deadline'', ''stress'', ''no'', ''sleep'', ''burnout'', ''stress'',
    ''family'', ''and'', ''exercise'', ''keep'', ''the'', ''balance'', ''family'',
    ''tired'', ''and'', ''worried'', ''about'', ''workload'', ''pressure'', ''stress'', ''tired'',
    ''overwhelmed'', ''exhausted'', ''sleep'', ''anxious'']"
  by (simp add: words_of_def topic_batch_def sample_post_def row_text_def
      tokens_of_text_def split_def clean_text_def clean_char_def char_eval)

lemma mood_batch_words: "words_of mood_batch =
   [''feeling'', ''overwhelmed'', ''work'', ''so'', ''sad'', ''today'', ''great'', ''day'',
    ''sunshine'', ''total'', ''meltdown'', ''ok'', ''panic'']"
  by (simp add: words_of_def mood_batch_def sample_post_def row_text_def
      tokens_of_text_def split_def clean_text_def clean_char_def char_eval)

theorem topic_frequencies_witness:
  "analyze_topics topic_batch =
     [(''stress'', 3), (''sleep'', 2), (''family'', 2), (''tired'', 2),
      (''workload'', 1), (''deadline'', 1), (''balance'', 1)] \<and>
   analyze_topics mood_batch = [(''overwhelmed'', 1)] \<and>
   sorted_wrt ranked_before (analyze_topics topic_batch) \<and>
   length (analyze_topics topic_batch) =
     min 7 (length (filter (\<lambda>w. w \<in> set (words_of topic_batch)) stress_words)) \<and>
   length (filter (\<lambda>w. w \<in> set (words_of mood_batch)) stress_words) = 1"
proof -
  have a: "analyze_topics topic_batch =
     [(''stress'', 3), (''sleep'', 2), (''family'', 2), (''tired'', 2),
      (''workload'', 1), (''deadline'', 1), (''balance'', 1)]"
    by (simp add: analyze_topics_eq topic_batch_words stress_words_def sorted_reverse_def)
  have b: "analyze_topics mood_batch = [(''overwhelmed'', 1)]"
    by (simp add: analyze_topics_eq mood_batch_words stress_words_def sorted_reverse_def)
  note t = topic_frequencies [of topic_batch]
  note m = topic_frequencies [of mood_batch]
  have c: "sorted_wrt ranked_before (analyze_topics topic_batch)" using t by blast
  have d: "length (analyze_topics topic_batch) =
     min 7 (length (filter (\<lambda>w. w \<in> set (words_of topic_batch)) stress_words))"
    using t by blast
  have "length (analyze_topics mood_batch) =
     min 7 (length (filter (\<lambda>w. w \<in> set (words_of mood_batch)) stress_words))"
    using m by blast
  then have e: "length (filter (\<lambda>w. w \<in> set (words_of mood_batch)) stress_words) = 1"
    unfolding b by (simp add: min_def split: if_splits)
  from a b c d e show ?thesis by blast
qed

section \<open>Daily aggregates\<close>















section \<open>Scatter chart\<close>











section \<open>Independence of the order of the records\<close>














section \<open>The service as the handlers call it\<close>

text \<open>
  On pydantic models \<open>process_data\<close> runs; on the dicts the handlers build it raises,
  so through either handler every dataset that passes the size check ends in the fallback
  response.
\<close>

lemma frame_rows_models: "frame_rows (map Model rows) = Inr rows"
  by (induction rows) simp_all

lemma process_data_models: "process_data_points (map Model rows) = process_data rows"
  by (simp add: process_data_points_def frame_rows_models)

lemma frame_rows_dicts:
  "rows \<noteq> [] \<Longrightarrow> frame_rows (map (\<lambda>dp. to_dict (Model dp)) rows) = Inl (AttributeError ''dict'')"
  by (cases rows) (simp_all add: to_dict_def)

lemma service_call_raises:
  "service_call rest rows =
     Inl (if rows = [] then KeyError ''timestamp'' else AttributeError ''dict'')"
  by (simp add: service_call_def process_data_points_def frame_rows_dicts process_data_def)

lemma batch_over_http:
  "analyze_batch_data (service_call rest) requests =
     map (\<lambda>request. get_fallback_analysis) requests"
  unfolding analyze_batch_data_def fold_results by (simp add: service_call_raises)

lemma analyze_over_http:
  "5 \<le> length (data_points request) \<Longrightarrow>
   analyze_mental_health_data (service_call rest) request = Inr get_fallback_analysis"
proof -
  assume "5 \<le> length (data_points request)"
  then have "data_points request \<noteq> []" "\<not> length (data_points request) < 5" by auto
  then show ?thesis
    by (simp add: analyze_mental_health_data_def service_call_raises)
qed

end
